theory Spec2Isabelle
  imports Main
begin

section \<open>Python values used by main.py\<close>

subsection \<open>Text\<close>

text \<open>
  Strings are sequences of UTF-8 bytes, so that equality of two strings is equality
  byte for byte. The glyphs of the titles are written as the bytes they have in main.py.
\<close>

definition glyph_cross :: string where
  "glyph_cross = [CHR 0xE2, CHR 0x9D, CHR 0x8C]"





definition glyph_party :: string where
  "glyph_party = [CHR 0xF0, CHR 0x9F, CHR 0x8E, CHR 0x89]"

text \<open>The decimal digit of a number below 10.\<close>

definition digit_char :: "nat \<Rightarrow> char" where
  "digit_char d = ''0123456789'' ! d"

text \<open>\<open>str(n)\<close> of a non-negative int: its decimal digits, no leading zero.\<close>

fun show_nat :: "nat \<Rightarrow> string" where
  "show_nat n = (if n < 10 then [digit_char n] else show_nat (n div 10) @ [digit_char (n mod 10)])"

declare show_nat.simps [simp del]


text \<open>\<open>str(x)\<close> of an \<open>Optional[int]\<close> and of an optional object with a name.\<close>

definition show_opt_nat :: "nat option \<Rightarrow> string" where
  "show_opt_nat x = (case x of None \<Rightarrow> ''None'' | Some n \<Rightarrow> show_nat n)"

definition show_opt_str :: "string option \<Rightarrow> string" where
  "show_opt_str x = (case x of None \<Rightarrow> ''None'' | Some s \<Rightarrow> s)"

subsection \<open>Floats\<close>

text \<open>
  A Python float is a sign, a mantissa and a binary exponent (the value
  \<open>m * 2 ^ e\<close>, exactly), an infinity, or not a number. Formatting and rounding work
  on the exact value, as the interpreter's correctly rounded conversions do.
\<close>

datatype pyfloat = Finite bool nat int | Infinity bool | NaN

text \<open>The quotient \<open>a / b\<close> rounded to the nearest natural number, ties to even.\<close>

definition round_half_even_div :: "nat \<Rightarrow> nat \<Rightarrow> nat" where
  "round_half_even_div a b =
     (let q = a div b; r = a mod b
      in if b < 2 * r \<or> (2 * r = b \<and> odd q) then q + 1 else q)"

text \<open>\<open>k * m * 2 ^ e\<close> rounded to the nearest natural number, ties to even.\<close>

definition scaled_round :: "nat \<Rightarrow> nat \<Rightarrow> int \<Rightarrow> nat" where
  "scaled_round k m e =
     (if 0 \<le> e then k * m * 2 ^ nat e else round_half_even_div (k * m) (2 ^ nat (- e)))"

definition sign_str :: "bool \<Rightarrow> string" where
  "sign_str s = (if s then ''-'' else '''')"

text \<open>The format specification \<open>:.2f\<close>.\<close>

definition py_format_2f :: "pyfloat \<Rightarrow> string" where
  "py_format_2f x =
     (case x of
        NaN \<Rightarrow> ''nan''
      | Infinity s \<Rightarrow> sign_str s @ ''inf''
      | Finite s m e \<Rightarrow>
          (let q = scaled_round 100 m e
           in sign_str s @ show_nat (q div 100) @ ''.''
                @ [digit_char (q mod 100 div 10), digit_char (q mod 10)]))"

subsection \<open>Exceptions\<close>

text \<open>
  The exception classes the handlers of main.py tell apart. \<open>Forbidden\<close> is a subclass of
  \<open>HTTPException\<close>; both, and every \<open>PyException\<close>, are subclasses of \<open>Exception\<close>.
  \<open>KeyboardInterrupt\<close> and \<open>CancelledError\<close> derive from \<open>BaseException\<close> only.
  The string is \<open>str(e)\<close>.
\<close>

datatype exn =
    Forbidden string
  | HTTPException string
  | PyException string
  | KeyboardInterrupt
  | CancelledError

fun is_Forbidden :: "exn \<Rightarrow> bool" where
  "is_Forbidden (Forbidden s) = True"
| "is_Forbidden e = False"

fun is_Exception :: "exn \<Rightarrow> bool" where
  "is_Exception (Forbidden s) = True"
| "is_Exception (HTTPException s) = True"
| "is_Exception (PyException s) = True"
| "is_Exception e = False"

fun is_KeyboardInterrupt :: "exn \<Rightarrow> bool" where
  "is_KeyboardInterrupt KeyboardInterrupt = True"
| "is_KeyboardInterrupt e = False"

fun exn_str :: "exn \<Rightarrow> string" where
  "exn_str (Forbidden s) = s"
| "exn_str (HTTPException s) = s"
| "exn_str (PyException s) = s"
| "exn_str e = ''''"






subsection \<open>Truthiness\<close>




section \<open>Embeds\<close>

type_synonym datetime = nat

record author_args =
  author_name :: "string option"
  author_icon_url :: "string option"
  author_url :: "string option"

record footer_args =
  footer_text :: "string option"
  footer_icon_url :: "string option"

text \<open>
  A \<open>discord.Embed\<close>: the constructor's arguments, the fields added in order
  (name, \<open>str(value)\<close>, inline), and the arguments of the \<open>set_...\<close> calls.
\<close>

record embed =
  title :: "string option"
  description :: "string option"
  color :: nat
  timestamp :: "datetime option"
  embed_fields :: "(string \<times> string \<times> bool) list"
  thumbnail_url :: "string option"
  image_url :: "string option"
  author :: "author_args option"
  footer :: "footer_args option"

definition Embed :: "string option \<Rightarrow> string option \<Rightarrow> nat \<Rightarrow> datetime option \<Rightarrow> embed" where
  "Embed t d c ts =
     \<lparr>title = t, description = d, color = c, timestamp = ts, embed_fields = [],
      thumbnail_url = None, image_url = None, author = None, footer = None\<rparr>"

definition add_field :: "string \<Rightarrow> string \<Rightarrow> bool \<Rightarrow> embed \<Rightarrow> embed" where
  "add_field n v i e = e\<lparr>embed_fields := embed_fields e @ [(n, v, i)]\<rparr>"

subsection \<open>The formatter: create_embed and its four templates\<close>








section \<open>Effects of the handlers\<close>

text \<open>
  Every call a handler makes on the outside world is an effect, recorded in program
  order at the moment the call is made. What the call does (return or raise) is an input
  of the handler. A log record has the logger's name, its level and its message;
  a presence change has the name of the "watching" activity; a send has the embed and,
  but for a channel (given by its id), the \<open>ephemeral\<close> flag.
\<close>

datatype level = INFO | ERROR

datatype effect =
    LogRecord string level string
  | Print string
  | LoadExtension string
  | TreeSync
  | ChangePresence string
  | ChannelSend nat embed
  | CtxSend embed bool
  | FollowupSend embed bool
  | ResponseSendMessage embed bool
  | ResponseIsDone bool
  | BotStart string
  | BotClose

text \<open>A run: the effects made, and the exception that left the code, if any.\<close>

record outcome =
  effects :: "effect list"
  raised :: "exn option"

definition skip :: outcome where
  "skip = \<lparr>effects = [], raised = None\<rparr>"

definition emit :: "effect \<Rightarrow> outcome" where
  "emit x = \<lparr>effects = [x], raised = None\<rparr>"

text \<open>An awaited call: its effect, and the exception it raises, if it does.\<close>

definition call :: "effect \<Rightarrow> exn option \<Rightarrow> outcome" where
  "call x r = \<lparr>effects = [x], raised = r\<rparr>"

definition raise :: "exn \<Rightarrow> outcome" where
  "raise e = \<lparr>effects = [], raised = Some e\<rparr>"

text \<open>Sequencing: the second statement runs only if the first did not raise.\<close>

definition then_run :: "outcome \<Rightarrow> outcome \<Rightarrow> outcome" where
  "then_run a b =
     (case raised a of
        Some e \<Rightarrow> a
      | None \<Rightarrow> \<lparr>effects = effects a @ effects b, raised = raised b\<rparr>)"

text \<open>
  \<open>try: body except ...\<close>: the handler gives the clause that catches the exception,
  or \<open>None\<close> when no clause does and the exception goes on.
\<close>

definition try_except :: "outcome \<Rightarrow> (exn \<Rightarrow> outcome option) \<Rightarrow> outcome" where
  "try_except body h =
     (case raised body of
        None \<Rightarrow> body
      | Some e \<Rightarrow>
          (case h e of
             None \<Rightarrow> body
           | Some c \<Rightarrow> \<lparr>effects = effects body @ effects c, raised = raised c\<rparr>))"

definition logger_info :: "string \<Rightarrow> outcome" where
  "logger_info msg = emit (LogRecord ''AdvancedBot'' INFO msg)"

definition logger_error :: "string \<Rightarrow> outcome" where
  "logger_error msg = emit (LogRecord ''AdvancedBot'' ERROR msg)"

section \<open>AdvancedBot\<close>

subsection \<open>load_extensions\<close>




subsection \<open>setup_hook\<close>


subsection \<open>on_ready\<close>




subsection \<open>on_guild_join\<close>

text \<open>
  A text channel: its id, and whether \<open>permissions_for(guild.me).send_messages\<close> holds.
\<close>

record text_channel =
  channel_id :: nat
  send_messages :: bool

record guild =
  guild_name :: string
  guild_id :: nat
  member_count :: "nat option"
  icon :: "string option"
  text_channels :: "text_channel list"

definition on_guild_join_embed :: "datetime \<Rightarrow> guild \<Rightarrow> embed" where
  "on_guild_join_embed now g =
     (add_field ''Server ID'' (show_nat (guild_id g)) True
       (add_field ''Member Count'' (show_opt_nat (member_count g)) True
         (add_field ''Server Name'' (guild_name g) True
           (Embed (Some (glyph_party @ '' Joined New Server!''))
              (Some (''Thanks for adding me to **'' @ guild_name g @ ''**!''))
              0x00ff00 (Some now)))))
     \<lparr>thumbnail_url := icon g\<rparr>"

text \<open>The search loop: \<open>channel\<close> stays \<open>None\<close> until a channel passes the test.\<close>

fun find_channel :: "text_channel list \<Rightarrow> text_channel option" where
  "find_channel [] = None"
| "find_channel (ch # rest) = (if send_messages ch then Some ch else find_channel rest)"

text \<open>\<open>send\<close> is what \<open>channel.send\<close> does, if it is called.\<close>

definition on_guild_join :: "datetime \<Rightarrow> guild \<Rightarrow> exn option \<Rightarrow> outcome" where
  "on_guild_join now g send =
     then_run
       (case find_channel (text_channels g) of
          None \<Rightarrow> skip
        | Some ch \<Rightarrow>
            try_except
              (call (ChannelSend (channel_id ch) (on_guild_join_embed now g)) send)
              (\<lambda>e. if is_Forbidden e then Some skip else None))
       (logger_info (''Joined guild: '' @ guild_name g @ '' (ID: '' @ show_nat (guild_id g) @ '')''))"

subsection \<open>on_command_error\<close>

text \<open>
  The errors of the prefix path, by the \<open>isinstance\<close> test they pass first; the last
  one is any other error, with its \<open>str(error)\<close>.
\<close>

datatype command_error =
    CommandNotFound
  | MissingPermissions
  | BotMissingPermissions
  | CommandOnCooldown pyfloat
  | MissingRequiredArgument string
  | BadArgument
  | OtherCommandError string

text \<open>
  The context: \<open>ctx.command\<close> (its name, or \<open>None\<close>), and what \<open>ctx.send\<close> does.
\<close>

record command_context =
  ctx_command :: "string option"
  ctx_send :: "exn option"

definition apostrophe :: string where
  "apostrophe = [CHR 0x27]"

text \<open>\<open>str(error)\<close> in the last branch, which only an error of no listed class reaches.\<close>

definition error_str :: "command_error \<Rightarrow> string" where
  "error_str error = (case error of OtherCommandError s \<Rightarrow> s | _ \<Rightarrow> [])"

text \<open>The \<open>if\<close>/\<open>elif\<close> chain: the description, and the log records of the last branch.\<close>

fun classify_command_error :: "string \<Rightarrow> command_context \<Rightarrow> command_error \<Rightarrow> string \<times> outcome" where
  "classify_command_error tb ctx MissingPermissions =
     (''You don'' @ apostrophe @ ''t have permission to use this command.'', skip)"
| "classify_command_error tb ctx BotMissingPermissions =
     (''I don'' @ apostrophe @ ''t have the required permissions to execute this command.'', skip)"
| "classify_command_error tb ctx (CommandOnCooldown retry_after) =
     (''Command is on cooldown. Try again in '' @ py_format_2f retry_after @ '' seconds.'', skip)"
| "classify_command_error tb ctx (MissingRequiredArgument param_name) =
     (''Missing required argument: `'' @ param_name @ ''`'', skip)"
| "classify_command_error tb ctx BadArgument =
     (''Invalid argument provided.'', skip)"
| "classify_command_error tb ctx error =
     (''An unexpected error occurred.'',
      then_run
        (logger_error (''Unexpected error in command '' @ show_opt_str (ctx_command ctx) @ '': ''
           @ error_str error))
        (logger_error tb))"

text \<open>
  \<open>on_command_error\<close>; \<open>tb\<close> is the text \<open>traceback.format_exc()\<close> returns. The bare
  \<open>except:\<close> catches every exception.
\<close>

definition on_command_error :: "datetime \<Rightarrow> string \<Rightarrow> command_context \<Rightarrow> command_error \<Rightarrow> outcome" where
  "on_command_error now tb ctx error =
     (if error = CommandNotFound then skip
      else
        let embed0 = Embed (Some (glyph_cross @ '' Command Error'')) None 0xff0000 (Some now);
            (d, logged) = classify_command_error tb ctx error;
            embed1 = embed0\<lparr>description := Some d\<rparr>
        in then_run logged
             (try_except (call (CtxSend embed1 True) (ctx_send ctx)) (\<lambda>e. Some skip)))"

subsection \<open>on_app_command_error\<close>

datatype app_command_error =
    AppMissingPermissions
  | AppBotMissingPermissions
  | AppCommandOnCooldown pyfloat
  | OtherAppCommandError string

text \<open>
  The interaction: what \<open>interaction.response.is_done()\<close> answers when it is asked,
  and what \<open>followup.send\<close> and \<open>response.send_message\<close> do. The question is a call
  on the interaction, recorded with its answer at the point where it is asked.
\<close>

record interaction =
  response_is_done :: bool
  followup_send :: "exn option"
  response_send_message :: "exn option"

fun classify_app_command_error :: "string \<Rightarrow> app_command_error \<Rightarrow> string \<times> outcome" where
  "classify_app_command_error tb AppMissingPermissions =
     (''You don'' @ apostrophe @ ''t have permission to use this command.'', skip)"
| "classify_app_command_error tb AppBotMissingPermissions =
     (''I don'' @ apostrophe @ ''t have the required permissions to execute this command.'', skip)"
| "classify_app_command_error tb (AppCommandOnCooldown retry_after) =
     (''Command is on cooldown. Try again in '' @ py_format_2f retry_after @ '' seconds.'', skip)"
| "classify_app_command_error tb (OtherAppCommandError s) =
     (''An unexpected error occurred.'',
      then_run (logger_error (''Unexpected error in slash command: '' @ s)) (logger_error tb))"

definition on_app_command_error ::
    "datetime \<Rightarrow> string \<Rightarrow> interaction \<Rightarrow> app_command_error \<Rightarrow> outcome" where
  "on_app_command_error now tb itx error =
     (let embed0 = Embed (Some (glyph_cross @ '' Command Error'')) None 0xff0000 (Some now);
          (d, logged) = classify_app_command_error tb error;
          embed1 = embed0\<lparr>description := Some d\<rparr>
      in then_run logged
           (try_except
              (then_run (emit (ResponseIsDone (response_is_done itx)))
                 (if response_is_done itx
                  then call (FollowupSend embed1 True) (followup_send itx)
                  else call (ResponseSendMessage embed1 True) (response_send_message itx)))
              (\<lambda>e. Some skip)))"

section \<open>main\<close>

text \<open>\<open>not token\<close>: the variable is unset, or set to the empty string.\<close>

definition not_token :: "string option \<Rightarrow> bool" where
  "not_token token = (case token of None \<Rightarrow> True | Some t \<Rightarrow> t = [])"

text \<open>
  \<open>main\<close>: \<open>getenv\<close> is the value of \<open>DISCORD_TOKEN\<close> in the environment, \<open>start\<close> and
  \<open>close\<close> are what \<open>bot.start\<close> and \<open>bot.close\<close> do. Constructing the bot makes no call
  on the outside world.
\<close>

definition main :: "string option \<Rightarrow> exn option \<Rightarrow> exn option \<Rightarrow> outcome" where
  "main getenv start close =
     (case getenv of
        None \<Rightarrow> emit (Print ''Error: DISCORD_TOKEN environment variable not set!'')
      | Some token \<Rightarrow>
          if not_token (Some token)
          then emit (Print ''Error: DISCORD_TOKEN environment variable not set!'')
          else
            try_except (call (BotStart token) start)
              (\<lambda>e. if is_KeyboardInterrupt e then Some (call BotClose close)
                   else if is_Exception e
                   then Some (then_run
                                (emit (LogRecord ''root'' ERROR (''Fatal error: '' @ exn_str e)))
                                (call BotClose close))
                   else None))"

text \<open>
  The script ends with \<open>asyncio.run(main())\<close>: the interpreter exits with status 0 when
  \<open>main\<close> returns, and with a non-zero status when an exception leaves it.
\<close>

definition exit_status_nonzero :: "outcome \<Rightarrow> bool" where
  "exit_status_nonzero r = (raised r \<noteq> None)"

fun is_BotStart :: "effect \<Rightarrow> bool" where
  "is_BotStart (BotStart t) = True"
| "is_BotStart x = False"

definition connection_attempts :: "outcome \<Rightarrow> nat" where
  "connection_attempts r = length (filter is_BotStart (effects r))"

section \<open>Start-up order\<close>



section \<open>Observations\<close>

text \<open>The embeds handed to a send call, and the log records, in program order.\<close>

fun sent_embed :: "effect \<Rightarrow> embed option" where
  "sent_embed (ChannelSend c e) = Some e"
| "sent_embed (CtxSend e eph) = Some e"
| "sent_embed (FollowupSend e eph) = Some e"
| "sent_embed (ResponseSendMessage e eph) = Some e"
| "sent_embed x = None"

definition notifications :: "outcome \<Rightarrow> embed list" where
  "notifications r = List.map_filter sent_embed (effects r)"

fun is_LogRecord :: "effect \<Rightarrow> bool" where
  "is_LogRecord (LogRecord n l m) = True"
| "is_LogRecord x = False"

definition log_records :: "outcome \<Rightarrow> effect list" where
  "log_records r = filter is_LogRecord (effects r)"










section \<open>What the handlers do\<close>

lemmas run_defs = then_run_def try_except_def call_def emit_def skip_def raise_def
  logger_info_def logger_error_def

subsection \<open>The two error handlers\<close>

lemma classify_command_error_raised:
  "raised (snd (classify_command_error tb ctx error)) = None"
  by (cases error) (simp_all add: run_defs)

lemma classify_app_command_error_raised:
  "raised (snd (classify_app_command_error tb error)) = None"
  by (cases error) (simp_all add: run_defs)

lemma classify_command_error_logs:
  "list_all is_LogRecord (effects (snd (classify_command_error tb ctx error)))"
  by (cases error) (simp_all add: run_defs)

lemma classify_app_command_error_logs:
  "list_all is_LogRecord (effects (snd (classify_app_command_error tb error)))"
  by (cases error) (simp_all add: run_defs)

lemma on_command_error_run:
  assumes "error \<noteq> CommandNotFound"
  shows "on_command_error now tb ctx error =
           \<lparr>effects = effects (snd (classify_command_error tb ctx error))
              @ [CtxSend ((Embed (Some (glyph_cross @ '' Command Error'')) None 0xff0000 (Some now))
                   \<lparr>description := Some (fst (classify_command_error tb ctx error))\<rparr>) True],
            raised = None\<rparr>"
  using assms classify_command_error_raised [of tb ctx error]
  by (cases "ctx_send ctx") (auto simp add: on_command_error_def run_defs Let_def split: prod.splits)

lemma on_app_command_error_run:
  "on_app_command_error now tb itx error =
     \<lparr>effects = effects (snd (classify_app_command_error tb error))
        @ [ResponseIsDone (response_is_done itx),
           (if response_is_done itx
            then FollowupSend ((Embed (Some (glyph_cross @ '' Command Error'')) None 0xff0000 (Some now))
                   \<lparr>description := Some (fst (classify_app_command_error tb error))\<rparr>) True
            else ResponseSendMessage ((Embed (Some (glyph_cross @ '' Command Error'')) None 0xff0000 (Some now))
                   \<lparr>description := Some (fst (classify_app_command_error tb error))\<rparr>) True)],
      raised = None\<rparr>"
  using classify_app_command_error_raised [of tb error]
  by (cases "followup_send itx"; cases "response_send_message itx")
     (auto simp add: on_app_command_error_def run_defs Let_def split: prod.splits)

lemma notifications_logs:
  "list_all is_LogRecord xs \<Longrightarrow> List.map_filter sent_embed (xs @ ys) = List.map_filter sent_embed ys"
proof (induction xs)
  case Nil then show ?case by simp
next
  case (Cons x xs)
  then show ?case by (cases x) (simp_all add: map_filter_simps)
qed

text \<open>
  C4: for the error kind \<open>CommandNotFound\<close> the prefix-path handler returns at once:
  it sends no notification, writes no log record, makes no other call and raises nothing.
\<close>

theorem legacy_not_found_silent:
  "on_command_error now tb ctx CommandNotFound = skip
   \<and> effects (on_command_error now tb ctx CommandNotFound) = []
   \<and> notifications (on_command_error now tb ctx CommandNotFound) = []
   \<and> log_records (on_command_error now tb ctx CommandNotFound) = []
   \<and> raised (on_command_error now tb ctx CommandNotFound) = None"
  by (simp add: on_command_error_def skip_def notifications_def log_records_def map_filter_simps)

text \<open>
  C8: neither error handler lets an exception out. Whatever the send call raises
  (any exception at all, since the \<open>except:\<close> clause is bare), the handler returns
  normally, and it does exactly what it does when the send succeeds: the failure leaves
  no trace.
\<close>

theorem classifiers_never_raise:
  "raised (on_command_error now tb ctx error) = None
   \<and> raised (on_app_command_error now tb itx aerror) = None
   \<and> on_command_error now tb ctx error = on_command_error now tb (ctx\<lparr>ctx_send := None\<rparr>) error
   \<and> on_app_command_error now tb itx aerror
       = on_app_command_error now tb (itx\<lparr>followup_send := None, response_send_message := None\<rparr>) aerror"
proof -
  have a: "raised (on_command_error now tb ctx error) = None"
    by (cases "error = CommandNotFound")
       (simp_all add: on_command_error_run, simp add: on_command_error_def skip_def)
  have b: "on_command_error now tb ctx error = on_command_error now tb (ctx\<lparr>ctx_send := None\<rparr>) error"
  proof (cases "error = CommandNotFound")
    case True then show ?thesis by (simp add: on_command_error_def)
  next
    case False
    have "classify_command_error tb (ctx\<lparr>ctx_send := None\<rparr>) error = classify_command_error tb ctx error"
      by (cases error) simp_all
    with False show ?thesis by (simp add: on_command_error_run)
  qed
  show ?thesis using a b by (simp add: on_app_command_error_run)
qed

text \<open>
  C10: every notification that either error handler sends has the title
  \<open>glyph_cross @ '' Command Error''\<close> (the cross glyph, a space, "Command Error"), the
  color \<open>0xff0000\<close> and the timestamp read when the embed was built, whatever the kind
  of the error; the prefix path sends exactly one unless the kind is \<open>CommandNotFound\<close>,
  the interaction path always exactly one.
\<close>

theorem classifier_notification_header:
  "map (\<lambda>e. (title e, color e, timestamp e)) (notifications (on_command_error now tb ctx error))
     = (if error = CommandNotFound then []
        else [(Some (glyph_cross @ '' Command Error''), 0xff0000, Some now)])
   \<and> map (\<lambda>e. (title e, color e, timestamp e)) (notifications (on_app_command_error now tb itx aerror))
     = [(Some (glyph_cross @ '' Command Error''), 0xff0000, Some now)]
   \<and> glyph_cross = [CHR 0xE2, CHR 0x9D, CHR 0x8C]"
proof -
  have a: "map (\<lambda>e. (title e, color e, timestamp e)) (notifications (on_command_error now tb ctx error))
     = (if error = CommandNotFound then []
        else [(Some (glyph_cross @ '' Command Error''), 0xff0000, Some now)])"
  proof (cases "error = CommandNotFound")
    case True
    then show ?thesis
      by (simp add: on_command_error_def skip_def notifications_def map_filter_simps)
  next
    case False
    then show ?thesis
      by (simp add: on_command_error_run notifications_def
            notifications_logs [OF classify_command_error_logs] map_filter_simps Embed_def)
  qed
  have b: "map (\<lambda>e. (title e, color e, timestamp e)) (notifications (on_app_command_error now tb itx aerror))
     = [(Some (glyph_cross @ '' Command Error''), 0xff0000, Some now)]"
    by (simp add: on_app_command_error_run notifications_def
          notifications_logs [OF classify_app_command_error_logs] map_filter_simps Embed_def)
  show ?thesis using a b by (simp add: glyph_cross_def)
qed

text \<open>
  C3: on the interaction path the handler first writes its log records, then asks the
  interaction whether a response is done, and then sends the notification at once:
  as a follow-up when the answer is yes, as the primary response when it is no. The
  question is the last call before the send, so the branch is taken on the state at
  send time.
\<close>

theorem interaction_delivery_at_send_time:
  "effects (on_app_command_error now tb itx aerror)
     = effects (snd (classify_app_command_error tb aerror))
       @ [ResponseIsDone (response_is_done itx),
          (if response_is_done itx
           then FollowupSend ((Embed (Some (glyph_cross @ '' Command Error'')) None 0xff0000 (Some now))
                  \<lparr>description := Some (fst (classify_app_command_error tb aerror))\<rparr>) True
           else ResponseSendMessage ((Embed (Some (glyph_cross @ '' Command Error'')) None 0xff0000 (Some now))
                  \<lparr>description := Some (fst (classify_app_command_error tb aerror))\<rparr>) True)]
   \<and> list_all is_LogRecord (effects (snd (classify_app_command_error tb aerror)))
   \<and> notifications (on_app_command_error now tb itx aerror)
     = [(Embed (Some (glyph_cross @ '' Command Error'')) None 0xff0000 (Some now))
          \<lparr>description := Some (fst (classify_app_command_error tb aerror))\<rparr>]"
  by (simp add: on_app_command_error_run classify_app_command_error_logs notifications_def
        notifications_logs [OF classify_app_command_error_logs] map_filter_simps)

subsection \<open>The formatter\<close>


subsection \<open>The missing token\<close>

text \<open>
  C2, as stated, fails: with the token absent \<open>main\<close> prints and returns, so the script
  ends with exit status 0, not with a non-zero one.
\<close>

theorem missing_token_exit_status_counterexample:
  "\<not> exit_status_nonzero (main None None None)"
  by (simp add: main_def exit_status_nonzero_def emit_def)

text \<open>
  C2, amended: if the token is absent from the environment (or empty), \<open>main\<close> prints the
  diagnostic, makes no connection attempt and no other call, and returns normally: the
  exit status is 0.
\<close>

theorem missing_token_fatal_path:
  assumes "not_token getenv"
  shows "main getenv start close
           = \<lparr>effects = [Print ''Error: DISCORD_TOKEN environment variable not set!''], raised = None\<rparr>
         \<and> connection_attempts (main getenv start close) = 0
         \<and> \<not> exit_status_nonzero (main getenv start close)"
  using assms
  by (cases getenv) (simp_all add: main_def emit_def connection_attempts_def exit_status_nonzero_def)

text \<open>The amended C2 at an environment without the variable.\<close>

theorem missing_token_fatal_path_witness:
  "not_token None
   \<and> main None (Some (PyException ''unreachable'')) None
       = \<lparr>effects = [Print ''Error: DISCORD_TOKEN environment variable not set!''], raised = None\<rparr>
   \<and> connection_attempts (main None (Some (PyException ''unreachable'')) None) = 0
   \<and> \<not> exit_status_nonzero (main None (Some (PyException ''unreachable'')) None)"
proof -
  have h: "not_token None"
    by (simp add: not_token_def)
  from missing_token_fatal_path [OF h, of "Some (PyException ''unreachable'')" None] h
  show ?thesis by blast
qed

subsection \<open>The extension loader\<close>







subsection \<open>The guild-join notifier\<close>

lemma find_channel_find: "find_channel chs = List.find send_messages chs"
  by (induction chs) simp_all

text \<open>
  C6, as stated, fails: when the send to the selected channel raises an
  \<open>HTTPException\<close> that is not \<open>Forbidden\<close>, the exception leaves the handler and the
  join is not logged.
\<close>

theorem guild_join_other_failure_counterexample:
  "raised (on_guild_join 0
      \<lparr>guild_name = ''g'', guild_id = 7, member_count = Some 10, icon = None,
       text_channels = [\<lparr>channel_id = 1, send_messages = False\<rparr>,
                        \<lparr>channel_id = 2, send_messages = True\<rparr>]\<rparr>
      (Some (HTTPException ''500''))) = Some (HTTPException ''500'')
   \<and> log_records (on_guild_join 0
      \<lparr>guild_name = ''g'', guild_id = 7, member_count = Some 10, icon = None,
       text_channels = [\<lparr>channel_id = 1, send_messages = False\<rparr>,
                        \<lparr>channel_id = 2, send_messages = True\<rparr>]\<rparr>
      (Some (HTTPException ''500''))) = []"
  by (simp add: on_guild_join_def run_defs log_records_def)

text \<open>
  C6, amended: the handler selects the first text channel, in the order of the list, on
  which the agent may send messages. When no channel qualifies it sends nothing; when
  the send returns or raises \<open>Forbidden\<close>, the failure is discarded. In these cases the
  handler raises nothing and the join (name, id) is logged as its last step.
\<close>

theorem guild_join_notifier:
  assumes "find_channel (text_channels g) = None \<or> send = None \<or> (\<exists>s. send = Some (Forbidden s))"
  shows "on_guild_join now g send =
           \<lparr>effects =
              (case find_channel (text_channels g) of
                 None \<Rightarrow> []
               | Some ch \<Rightarrow> [ChannelSend (channel_id ch) (on_guild_join_embed now g)])
              @ [LogRecord ''AdvancedBot'' INFO
                   (''Joined guild: '' @ guild_name g @ '' (ID: '' @ show_nat (guild_id g) @ '')'')],
            raised = None\<rparr>
         \<and> find_channel (text_channels g) = List.find send_messages (text_channels g)"
  using assms
  by (auto simp add: on_guild_join_def run_defs find_channel_find split: option.splits)

text \<open>
  The amended C6 at the channels 1 (no permission), 2 and 3 (permission), the send
  raising \<open>Forbidden\<close>.
\<close>

theorem guild_join_notifier_witness:
  "on_guild_join 0
      \<lparr>guild_name = ''g'', guild_id = 7, member_count = Some 10, icon = None,
       text_channels = [\<lparr>channel_id = 1, send_messages = False\<rparr>,
                        \<lparr>channel_id = 2, send_messages = True\<rparr>,
                        \<lparr>channel_id = 3, send_messages = True\<rparr>]\<rparr>
      (Some (Forbidden ''Missing Permissions''))
    = \<lparr>effects =
         [ChannelSend 2 (on_guild_join_embed 0
            \<lparr>guild_name = ''g'', guild_id = 7, member_count = Some 10, icon = None,
             text_channels = [\<lparr>channel_id = 1, send_messages = False\<rparr>,
                              \<lparr>channel_id = 2, send_messages = True\<rparr>,
                              \<lparr>channel_id = 3, send_messages = True\<rparr>]\<rparr>),
          LogRecord ''AdvancedBot'' INFO ''Joined guild: g (ID: 7)''],
       raised = None\<rparr>"
proof -
  have h: "(\<exists>s. Some (Forbidden ''Missing Permissions'') = Some (Forbidden s))"
    by simp
  have n: "show_nat 7 = ''7''"
    by (simp add: show_nat.simps digit_char_def)
  from guild_join_notifier [of _ "Some (Forbidden ''Missing Permissions'')" 0, OF disjI2, OF disjI2, OF h]
  show ?thesis
    by (simp add: n)
qed

subsection \<open>The templates of the prefix path\<close>












subsection \<open>Rounding\<close>

text \<open>
  The rounded quotient is a nearest natural number: it is off by half a unit at most. So
  the digits \<open>py_format_2f\<close> prints are those of the hundredth nearest to the value, and
  \<open>py_round\<close> gives the nearest integer.
\<close>

lemma round_half_even_div_nearest:
  assumes "0 < b"
  shows "2 * \<bar>int a - int (round_half_even_div a b) * int b\<bar> \<le> int b"
proof -
  have eq: "int a = int (a div b) * int b + int (a mod b)"
    by (metis div_mult_mod_eq of_nat_add of_nat_mult)
  have lt: "int (a mod b) < int b"
    using assms by simp
  show ?thesis
    using lt unfolding round_half_even_div_def Let_def
    by (auto simp add: eq algebra_simps)
qed

lemma scaled_round_nearest:
  assumes "e < 0"
  shows "2 * \<bar>int (k * m) - int (scaled_round k m e) * 2 ^ nat (- e)\<bar> \<le> 2 ^ nat (- e)"
  using assms round_half_even_div_nearest [of "2 ^ nat (- e)" "k * m"]
  by (simp add: scaled_round_def)

lemma scaled_round_exact: "0 \<le> e \<Longrightarrow> scaled_round k m e = k * m * 2 ^ nat e"
  by (simp add: scaled_round_def)

subsection \<open>Start-up with a failing sync\<close>












end
